theory Spec2Isabelle
  imports Complex_Main "HOL-Library.Sublist"
begin

section \<open>Python values used by the compatibility shim\<close>

text \<open>
  The module \<^verbatim>\<open>airflow.providers.common.compat.openlineage.utils.spark\<close> defines,
  on its legacy path, two functions that add OpenLineage entries to a dictionary of Spark
  properties. This theory embeds both functions and the Python operations they rest on.
\<close>

subsection \<open>Exceptions\<close>

text \<open>
  The exceptions the two functions can let escape: \<^verbatim>\<open>context["ti"]\<close> on a
  missing key, and \<^verbatim>\<open>int(x)\<close> on a float that is infinite or not a number.
\<close>

datatype py_error = KeyError string | OverflowError | ValueError

subsection \<open>Dictionaries\<close>

text \<open>
  A Python \<^verbatim>\<open>dict\<close> keeps its items in insertion order and its keys are
  unique. It is an association list; \<open>wf_dict\<close> is the invariant every Python
  dictionary satisfies. The keys and the values of the Spark properties are strings
  (\<^verbatim>\<open>str(key)\<close> leaves a string as it is).
\<close>

type_synonym dict = "(string \<times> string) list"

definition wf_dict :: "dict \<Rightarrow> bool" where
  "wf_dict d = distinct (map fst d)"

definition keys :: "dict \<Rightarrow> string list" where
  "keys d = map fst d"

definition dict_get :: "dict \<Rightarrow> string \<Rightarrow> string option" where
  "dict_get d k = map_of d k"

text \<open>
  \<^verbatim>\<open>d[k] = v\<close>: an existing key keeps its position and takes the new value,
  a new key goes to the end.
\<close>

fun dict_set :: "dict \<Rightarrow> string \<Rightarrow> string \<Rightarrow> dict" where
  "dict_set [] k v = [(k, v)]"
| "dict_set ((k', v') # d) k v =
     (if k' = k then (k', v) # d else (k', v') # dict_set d k v)"

text \<open>\<^verbatim>\<open>d.update(items)\<close>: the items are stored one after the other.\<close>

fun dict_update :: "dict \<Rightarrow> (string \<times> string) list \<Rightarrow> dict" where
  "dict_update d [] = d"
| "dict_update d ((k, v) # items) = dict_update (dict_set d k v) items"

text \<open>
  \<^verbatim>\<open>{**a, **b}\<close>: a fresh dictionary that receives the items of \<open>a\<close>, then those
  of \<open>b\<close> (the last write wins).
\<close>

definition dict_merge :: "dict \<Rightarrow> dict \<Rightarrow> dict" where
  "dict_merge a b = dict_update (dict_update [] a) b"

text \<open>\<^verbatim>\<open>s.startswith(p)\<close> is \<^const>\<open>prefix\<close> with the arguments swapped.\<close>

definition startswith :: "string \<Rightarrow> string \<Rightarrow> bool" where
  "startswith s p = prefix p s"

text \<open>\<^verbatim>\<open>any(str(key).startswith(p) for key in properties)\<close>\<close>

definition any_key_startswith :: "string \<Rightarrow> dict \<Rightarrow> bool" where
  "any_key_startswith p properties = list_ex (\<lambda>key. startswith key p) (keys properties)"

subsection \<open>Observable effects\<close>

text \<open>
  Besides returning or raising, the functions write to the module's logger and call into
  the OpenLineage provider. Each function returns the list of these effects, in the order
  they happen, next to its result.
\<close>

datatype event =
    Log_info string "string list"
  | External_call string

type_synonym 'a outcome = "event list \<times> (py_error + 'a)"

section \<open>Parent job information\<close>

text \<open>
  The three functions imported from
  \<^verbatim>\<open>airflow.providers.openlineage.plugins.macros\<close> belong to another package; they
  are parameters of the model. \<open>'ti\<close> is the type of the values of the context.
\<close>

record 'ti macros =
  lineage_job_namespace :: "unit \<Rightarrow> string"
  lineage_job_name :: "'ti \<Rightarrow> string"
  lineage_run_id :: "'ti \<Rightarrow> string"

type_synonym 'ti Context = "string \<rightharpoonup> 'ti"

definition parent_already_present_msg :: string where
  "parent_already_present_msg =
     ''Some OpenLineage properties with parent job information are already present '' @
     ''in Spark properties. Skipping the injection of OpenLineage '' @
     ''parent job information into Spark properties.''"

definition inject_parent_job_information_into_spark_properties ::
  "'ti macros \<Rightarrow> dict \<Rightarrow> 'ti Context \<Rightarrow> dict outcome" where
  "inject_parent_job_information_into_spark_properties m properties context =
     (if any_key_startswith ''spark.openlineage.parent'' properties then
        ([Log_info parent_already_present_msg []], Inr properties)
      else
        (case context ''ti'' of
           None \<Rightarrow> ([], Inl (KeyError ''ti''))
         | Some ti \<Rightarrow>
             (let ol_parent_job_properties =
                    [(''spark.openlineage.parentJobNamespace'', lineage_job_namespace m ()),
                     (''spark.openlineage.parentJobName'', lineage_job_name m ti),
                     (''spark.openlineage.parentRunId'', lineage_run_id m ti)]
              in ([External_call ''lineage_job_namespace'',
                   External_call ''lineage_job_name'',
                   External_call ''lineage_run_id''],
                  Inr (dict_merge properties ol_parent_job_properties)))))"

section \<open>Transport information\<close>

subsection \<open>Floats and their conversion to text\<close>

text \<open>
  A Python \<^verbatim>\<open>float\<close> is an IEEE 754 binary64 number. \<open>Finite m e\<close> stands for
  \<open>m * 2 ^ e\<close>; a binary64 number has \<open>\<bar>m\<bar> < 2 ^ 53\<close> and \<open>- 1074 \<le> e \<le> 971\<close>.
  The sign of a zero is not kept: \<^verbatim>\<open>int\<close> does not read it.
\<close>

datatype pyfloat = Finite int int | PosInf | NegInf | NaN

fun is_nan :: "pyfloat \<Rightarrow> bool" where
  "is_nan NaN = True"
| "is_nan _ = False"

fun is_finite :: "pyfloat \<Rightarrow> bool" where
  "is_finite (Finite m e) = True"
| "is_finite _ = False"

fun is_zero :: "pyfloat \<Rightarrow> bool" where
  "is_zero (Finite m e) = (m = 0)"
| "is_zero _ = False"

fun is_negative :: "pyfloat \<Rightarrow> bool" where
  "is_negative (Finite m e) = (m < 0)"
| "is_negative NegInf = True"
| "is_negative _ = False"

text \<open>\<^verbatim>\<open>x >= 0\<close> on a float.\<close>

fun float_nonneg :: "pyfloat \<Rightarrow> bool" where
  "float_nonneg (Finite m e) = (0 \<le> m)"
| "float_nonneg PosInf = True"
| "float_nonneg _ = False"

definition signed_inf :: "bool \<Rightarrow> pyfloat" where
  "signed_inf neg = (if neg then NegInf else PosInf)"

text \<open>\<^verbatim>\<open>n.bit_length()\<close> on a natural number \<open>n\<close>.\<close>

function bit_length :: "int \<Rightarrow> nat" where
  "bit_length n = (if n \<le> 0 then 0 else Suc (bit_length (n div 2)))"
  by pat_completeness auto
termination
  by (relation "measure nat") auto

declare bit_length.simps [simp del]

text \<open>
  The natural number \<open>a\<close> without its \<open>s\<close> lowest bits, rounded to the nearest integer,
  a tie to the even one.
\<close>

definition shift_round_half_even :: "int \<Rightarrow> nat \<Rightarrow> int" where
  "shift_round_half_even a s =
     (let q = a div 2 ^ s; r = a mod 2 ^ s
      in if 2 ^ s < 2 * r \<or> (2 * r = 2 ^ s \<and> odd q) then q + 1 else q)"

text \<open>
  The binary64 number nearest to \<open>a * 2 ^ e\<close>, for a natural number \<open>a\<close>, with the
  sign \<open>neg\<close>: the mantissa is cut to 53 bits and the exponent kept at \<open>- 1074\<close> or
  above; a result of \<open>2 ^ 1024\<close> or more is an infinity.
\<close>

definition round_to_double :: "bool \<Rightarrow> int \<Rightarrow> int \<Rightarrow> pyfloat" where
  "round_to_double neg a e =
     (let s = nat (max (int (bit_length a) - 53) (- 1074 - e));
          q = shift_round_half_even a s;
          e' = e + int s
      in if 0 < q \<and> 1024 < int (bit_length q) + e' then signed_inf neg
         else Finite (if neg then - q else q) e')"

text \<open>\<^verbatim>\<open>x * y\<close> on floats.\<close>

fun float_mul :: "pyfloat \<Rightarrow> pyfloat \<Rightarrow> pyfloat" where
  "float_mul (Finite m e) (Finite n f) =
     round_to_double ((m < 0) \<noteq> (n < 0)) (\<bar>m\<bar> * \<bar>n\<bar>) (e + f)"
| "float_mul x y =
     (if is_nan x \<or> is_nan y \<or> is_zero x \<or> is_zero y then NaN
      else signed_inf (is_negative x \<noteq> is_negative y))"

text \<open>
  \<^verbatim>\<open>int(x)\<close> on a float: the fraction is dropped (rounding towards zero); an infinity
  raises \<^verbatim>\<open>OverflowError\<close>, a NaN \<^verbatim>\<open>ValueError\<close>.
\<close>

fun py_int :: "pyfloat \<Rightarrow> py_error + int" where
  "py_int (Finite m e) =
     Inr (if 0 \<le> e then m * 2 ^ nat e
          else if 0 \<le> m then m div 2 ^ nat (- e)
          else - ((- m) div 2 ^ nat (- e)))"
| "py_int PosInf = Inl OverflowError"
| "py_int NegInf = Inl OverflowError"
| "py_int NaN = Inl ValueError"

text \<open>\<^verbatim>\<open>str(i)\<close> on an integer: its decimal digits.\<close>

definition digit_char :: "nat \<Rightarrow> char" where
  "digit_char d = ''0123456789'' ! d"

function str_digits :: "int \<Rightarrow> string" where
  "str_digits n =
     (if n < 10 then [digit_char (nat n)]
      else str_digits (n div 10) @ [digit_char (nat (n mod 10))])"
  by pat_completeness auto
termination
  by (relation "measure nat") auto

declare str_digits.simps [simp del]

definition str_int :: "int \<Rightarrow> string" where
  "str_int i = (if i < 0 then CHR ''-'' # str_digits (- i) else str_digits i)"

text \<open>
  The number a finite float stands for, to state what the conversions compute
  (\<open>0\<close> for an infinity and for NaN, which stand for no number).
\<close>

fun float_value :: "pyfloat \<Rightarrow> rat" where
  "float_value (Finite m e) =
     (if 0 \<le> e then of_int m * 2 ^ nat e else of_int m / 2 ^ nat (- e))"
| "float_value _ = 0"

subsection \<open>The transport of the OpenLineage client\<close>

text \<open>
  The transport is an object of the OpenLineage client, reached through
  \<^verbatim>\<open>get_openlineage_listener().adapter.get_or_create_openlineage_client().transport\<close>;
  it is a parameter of the model. \<open>has_api_key\<close> is
  \<^verbatim>\<open>hasattr(transport.config.auth, "api_key")\<close>, \<open>get_bearer\<close> is what
  \<^verbatim>\<open>transport.config.auth.get_bearer()\<close> returns (\<open>None\<close> for Python's
  \<^verbatim>\<open>None\<close>), and \<open>custom_headers\<close> is \<open>None\<close> when the configuration has no such
  attribute.
\<close>

record token_provider =
  has_api_key :: bool
  get_bearer :: "string option"

record http_config =
  auth :: token_provider
  custom_headers :: "dict option"

record transport =
  kind :: string
  url :: string
  endpoint :: string
  timeout :: pyfloat
  compression :: "string option"
  config :: http_config

definition transport_already_present_msg :: string where
  "transport_already_present_msg =
     ''Some OpenLineage properties with transport information are already present '' @
     ''in Spark properties. Skipping the injection of OpenLineage '' @
     ''transport information into Spark properties.''"

definition transport_unsupported_msg :: string where
  "transport_unsupported_msg =
     ''OpenLineage transport type `%s` does not support automatic '' @
     ''injection of OpenLineage transport information into Spark properties.''"

text \<open>\<^verbatim>\<open>if transport.compression: ...\<close>\<close>

definition add_compression :: "transport \<Rightarrow> dict \<Rightarrow> dict" where
  "add_compression transport transport_properties =
     (case compression transport of
        None \<Rightarrow> transport_properties
      | Some c \<Rightarrow>
          if c \<noteq> [] then
            dict_set transport_properties ''spark.openlineage.transport.compression'' c
          else transport_properties)"

text \<open>
  \<^verbatim>\<open>if hasattr(transport.config.auth, "api_key") and transport.config.auth.get_bearer(): ...\<close>
  The accessor is called once by the test and once more to store the token.
\<close>

definition add_auth :: "transport \<Rightarrow> dict \<Rightarrow> event list \<times> dict" where
  "add_auth transport transport_properties =
     (if has_api_key (auth (config transport)) then
        (case get_bearer (auth (config transport)) of
           None \<Rightarrow> ([External_call ''get_bearer''], transport_properties)
         | Some bearer \<Rightarrow>
             if bearer \<noteq> [] then
               ([External_call ''get_bearer'', External_call ''get_bearer''],
                dict_set
                  (dict_set transport_properties
                     ''spark.openlineage.transport.auth.type'' ''api_key'')
                  ''spark.openlineage.transport.auth.apiKey'' bearer)
             else ([External_call ''get_bearer''], transport_properties))
      else ([], transport_properties))"

text \<open>\<^verbatim>\<open>for key, value in transport.config.custom_headers.items(): ...\<close>\<close>

fun add_headers :: "dict \<Rightarrow> (string \<times> string) list \<Rightarrow> dict" where
  "add_headers transport_properties [] = transport_properties"
| "add_headers transport_properties ((key, val) # items) =
     add_headers
       (dict_set transport_properties (''spark.openlineage.transport.headers.'' @ key) val)
       items"

text \<open>
  \<^verbatim>\<open>if hasattr(transport.config, "custom_headers") and transport.config.custom_headers: ...\<close>
\<close>

definition add_custom_headers :: "transport \<Rightarrow> dict \<Rightarrow> dict" where
  "add_custom_headers transport transport_properties =
     (case custom_headers (config transport) of
        None \<Rightarrow> transport_properties
      | Some headers \<Rightarrow>
          if headers \<noteq> [] then add_headers transport_properties headers
          else transport_properties)"

text \<open>
  The function itself. The literal \<^verbatim>\<open>1000\<close> becomes the float \<open>Finite 1000 0\<close>
  before the multiplication. The context is not read.
\<close>

definition inject_transport_information_into_spark_properties ::
  "transport \<Rightarrow> dict \<Rightarrow> 'c \<Rightarrow> dict outcome" where
  "inject_transport_information_into_spark_properties transport properties context =
     (if any_key_startswith ''spark.openlineage.transport'' properties then
        ([Log_info transport_already_present_msg []], Inr properties)
      else if kind transport \<noteq> ''http'' then
        ([External_call ''get_openlineage_listener'',
          Log_info transport_unsupported_msg [kind transport]], Inr [])
      else
        (case py_int (float_mul (timeout transport) (Finite 1000 0)) of
           Inl err \<Rightarrow> ([External_call ''get_openlineage_listener''], Inl err)
         | Inr millis \<Rightarrow>
             (let transport_properties =
                    [(''spark.openlineage.transport.type'', ''http''),
                     (''spark.openlineage.transport.url'', url transport),
                     (''spark.openlineage.transport.endpoint'', endpoint transport),
                     (''spark.openlineage.transport.timeoutInMillis'', str_int millis)];
                  transport_properties = add_compression transport transport_properties;
                  (bearer_calls, transport_properties) = add_auth transport transport_properties;
                  transport_properties = add_custom_headers transport transport_properties
              in (External_call ''get_openlineage_listener'' # bearer_calls,
                  Inr (dict_merge properties transport_properties)))))"

text \<open>
  The dictionary \<^verbatim>\<open>transport_properties\<close> as it stands at the \<^verbatim>\<open>return\<close> of
  the function, once \<^verbatim>\<open>int\<close> has returned \<open>millis\<close>.
\<close>

definition base_properties :: "transport \<Rightarrow> int \<Rightarrow> dict" where
  "base_properties transport millis =
     [(''spark.openlineage.transport.type'', ''http''),
      (''spark.openlineage.transport.url'', url transport),
      (''spark.openlineage.transport.endpoint'', endpoint transport),
      (''spark.openlineage.transport.timeoutInMillis'', str_int millis)]"

definition final_properties :: "transport \<Rightarrow> int \<Rightarrow> dict" where
  "final_properties transport millis =
     add_custom_headers transport
       (snd (add_auth transport (add_compression transport (base_properties transport millis))))"

section \<open>Inputs used as examples\<close>

text \<open>
  Lookup functions that answer \<^verbatim>\<open>"ns"\<close>, \<^verbatim>\<open>"job"\<close> and \<^verbatim>\<open>"run-1"\<close>, and
  transports: an HTTP transport with the timeout \<^verbatim>\<open>5.0\<close> and nothing optional, a
  Kafka transport, an HTTP transport with compression, an API key and a custom header, one
  whose token provider has the attribute \<^verbatim>\<open>api_key\<close> and an empty token, and two
  whose timeouts are \<^verbatim>\<open>float("inf")\<close> and \<open>2 ^ 1020\<close>.
\<close>

definition example_macros :: "string macros" where
  "example_macros =
     \<lparr>lineage_job_namespace = (\<lambda>_. ''ns''),
      lineage_job_name = (\<lambda>ti. ''job''),
      lineage_run_id = (\<lambda>ti. ''run-1'')\<rparr>"

definition example_context :: "string Context" where
  "example_context = [''ti'' \<mapsto> ''task-instance'']"

definition http_transport :: transport where
  "http_transport =
     \<lparr>kind = ''http'', url = ''http://localhost:5000'', endpoint = ''api/v1/lineage'',
      timeout = Finite 5 0, compression = None,
      config = \<lparr>auth = \<lparr>has_api_key = False, get_bearer = None\<rparr>, custom_headers = None\<rparr>\<rparr>"

definition kafka_transport :: transport where
  "kafka_transport = http_transport\<lparr>kind := ''kafka''\<rparr>"

definition api_key_transport :: transport where
  "api_key_transport =
     http_transport
       \<lparr>compression := Some ''gzip'',
        config :=
          \<lparr>auth = \<lparr>has_api_key = True, get_bearer = Some ''Bearer secret''\<rparr>,
           custom_headers = Some [(''X-Foo'', ''bar'')]\<rparr>\<rparr>"

definition empty_token_transport :: transport where
  "empty_token_transport =
     http_transport
       \<lparr>config := \<lparr>auth = \<lparr>has_api_key = True, get_bearer = Some []\<rparr>, custom_headers = None\<rparr>\<rparr>"

definition inf_timeout_transport :: transport where
  "inf_timeout_transport = http_transport\<lparr>timeout := PosInf\<rparr>"

definition huge_timeout_transport :: transport where
  "huge_timeout_transport = http_transport\<lparr>timeout := Finite 1 1020\<rparr>"

section \<open>Properties of dictionaries\<close>

lemma keys_Nil [simp]: "keys [] = []"
  by (simp add: keys_def)

lemma keys_Cons [simp]: "keys (x # d) = fst x # keys d"
  by (simp add: keys_def)

lemma keys_append [simp]: "keys (d @ d') = keys d @ keys d'"
  by (simp add: keys_def)

lemma dict_set_absent:
  "k \<notin> set (keys d) \<Longrightarrow> dict_set d k v = d @ [(k, v)]"
  by (induction d k v rule: dict_set.induct) auto

lemma keys_dict_set: "set (keys (dict_set d k v)) = insert k (set (keys d))"
  by (induction d k v rule: dict_set.induct) auto

lemma dict_get_dict_set:
  "dict_get (dict_set d k v) k' = (if k' = k then Some v else dict_get d k')"
  by (induction d k v rule: dict_set.induct) (auto simp: dict_get_def)

lemma wf_dict_set: "wf_dict d \<Longrightarrow> wf_dict (dict_set d k v)"
proof (induction d k v rule: dict_set.induct)
  case (1 k v)
  then show ?case by (simp add: wf_dict_def)
next
  case (2 k' v' d k v)
  have "set (keys (dict_set d k v)) = insert k (set (keys d))"
    by (rule keys_dict_set)
  with 2 show ?case by (auto simp: wf_dict_def keys_def)
qed

lemma keys_dict_update:
  "set (keys (dict_update d items)) = set (keys d) \<union> set (keys items)"
  by (induction d items rule: dict_update.induct) (auto simp: keys_dict_set)

lemma dict_get_dict_update_absent:
  "k \<notin> set (keys items) \<Longrightarrow> dict_get (dict_update d items) k = dict_get d k"
  by (induction d items rule: dict_update.induct) (auto simp: dict_get_dict_set)

lemma dict_get_dict_update_present:
  "wf_dict items \<Longrightarrow> dict_get items k = Some v \<Longrightarrow> dict_get (dict_update d items) k = Some v"
proof (induction d items rule: dict_update.induct)
  case (1 d)
  then show ?case by (simp add: dict_get_def)
next
  case (2 d k' v' items)
  show ?case
  proof (cases "k = k'")
    case True
    with 2 have "k \<notin> set (keys items)" and "v = v'"
      by (auto simp: wf_dict_def keys_def dict_get_def)
    then show ?thesis
      using True by (simp add: dict_get_dict_update_absent dict_get_dict_set)
  next
    case False
    with 2 show ?thesis by (auto simp: wf_dict_def dict_get_def)
  qed
qed

lemma dict_update_append:
  "distinct (keys d @ keys items) \<Longrightarrow> dict_update d items = d @ items"
proof (induction d items rule: dict_update.induct)
  case (1 d)
  then show ?case by simp
next
  case (2 d k v items)
  from 2 have absent: "k \<notin> set (keys d)"
    by auto
  then have step: "dict_set d k v = d @ [(k, v)]"
    by (rule dict_set_absent)
  from "2.prems" have "distinct (keys (d @ [(k, v)]) @ keys items)"
    by auto
  with "2.IH" step have "dict_update (d @ [(k, v)]) items = (d @ [(k, v)]) @ items"
    by simp
  with step show ?case by simp
qed

lemma dict_copy: "wf_dict a \<Longrightarrow> dict_update [] a = a"
  using dict_update_append [of "[]" a] by (simp add: wf_dict_def keys_def)

lemma keys_dict_merge: "set (keys (dict_merge a b)) = set (keys a) \<union> set (keys b)"
  by (simp add: dict_merge_def keys_dict_update)

lemma dict_get_dict_merge_present:
  "wf_dict b \<Longrightarrow> dict_get b k = Some v \<Longrightarrow> dict_get (dict_merge a b) k = Some v"
  by (simp add: dict_merge_def dict_get_dict_update_present)

lemma dict_merge_append:
  "wf_dict a \<Longrightarrow> distinct (keys a @ keys b) \<Longrightarrow> dict_merge a b = a @ b"
  by (simp add: dict_merge_def dict_copy dict_update_append)

lemma any_key_startswith_iff:
  "any_key_startswith p d \<longleftrightarrow> (\<exists>k \<in> set (keys d). prefix p k)"
  by (simp add: any_key_startswith_def startswith_def list_ex_iff)

section \<open>Properties of the conversions\<close>

lemma shift_round_half_even_nonneg: "0 \<le> a \<Longrightarrow> 0 \<le> shift_round_half_even a s"
  by (simp add: shift_round_half_even_def Let_def pos_imp_zdiv_nonneg_iff)

lemma round_to_double_nonneg:
  "0 \<le> a \<Longrightarrow> round_to_double False a e = Finite n f \<Longrightarrow> 0 \<le> n"
  using shift_round_half_even_nonneg [of a]
  by (auto simp: round_to_double_def signed_inf_def Let_def split: if_splits)

lemma float_mul_nonneg:
  "float_nonneg x \<Longrightarrow> float_mul x (Finite 1000 0) = Finite n f \<Longrightarrow> 0 \<le> n"
  by (cases x) (auto simp: signed_inf_def dest: round_to_double_nonneg [rotated] split: if_splits)

lemma py_int_floor:
  assumes "0 \<le> n"
  shows "py_int (Finite n f) = Inr \<lfloor>float_value (Finite n f)\<rfloor>"
proof (cases "0 \<le> f")
  case True
  have "\<lfloor>(of_int n :: rat) * 2 ^ nat f\<rfloor> = \<lfloor>(of_int (n * 2 ^ nat f) :: rat)\<rfloor>"
    by simp
  also have "\<dots> = n * 2 ^ nat f"
    by (rule floor_of_int)
  finally show ?thesis using True by simp
next
  case False
  have "\<lfloor>(of_int n :: rat) / 2 ^ nat (- f)\<rfloor> = \<lfloor>(of_int n :: rat) / of_int (2 ^ nat (- f))\<rfloor>"
    by simp
  also have "\<dots> = n div 2 ^ nat (- f)"
    by (rule floor_divide_of_int_eq)
  finally show ?thesis using False assms by simp
qed

text \<open>
  The product of two floats is rounded. The float \<^verbatim>\<open>2.3\<close> is
  \<open>2589569785738035 / 2 ^ 50\<close>, a little less than \<open>23 / 10\<close>; its product with
  \<^verbatim>\<open>1000\<close> is rounded to \<^verbatim>\<open>2300.0\<close>, and \<^verbatim>\<open>int\<close> gives \<open>2300\<close>,
  while the floor of the exact product is \<open>2299\<close>.
\<close>

lemma float_product_is_rounded:
  "py_int (float_mul (Finite 2589569785738035 (- 50)) (Finite 1000 0)) = Inr 2300 \<and>
   \<lfloor>float_value (Finite 2589569785738035 (- 50)) * 1000\<rfloor> = 2299"
proof
  show "py_int (float_mul (Finite 2589569785738035 (- 50)) (Finite 1000 0)) = Inr 2300"
    by code_simp
  have "float_value (Finite 2589569785738035 (- 50)) * 1000 = 2589569785738035000 / 2 ^ 50"
    by simp
  also have "\<lfloor>\<dots> :: rat\<rfloor> = 2299"
    by (simp add: floor_eq_iff)
  finally show "\<lfloor>float_value (Finite 2589569785738035 (- 50)) * 1000\<rfloor> = 2299" .
qed

section \<open>Properties of the steps that build the transport properties\<close>

lemma dict_get_None_iff: "dict_get d k = None \<longleftrightarrow> k \<notin> set (keys d)"
  by (simp add: dict_get_def keys_def map_of_eq_None_iff)

lemma wf_base_properties: "wf_dict (base_properties tr millis)"
  by (simp add: base_properties_def wf_dict_def)

lemma keys_base_properties:
  "keys (base_properties tr millis) =
     [''spark.openlineage.transport.type'', ''spark.openlineage.transport.url'',
      ''spark.openlineage.transport.endpoint'', ''spark.openlineage.transport.timeoutInMillis'']"
  by (simp add: base_properties_def)

lemma wf_add_compression: "wf_dict d \<Longrightarrow> wf_dict (add_compression tr d)"
  by (simp add: add_compression_def wf_dict_set split: option.splits)

lemma dict_get_add_compression:
  "k \<noteq> ''spark.openlineage.transport.compression'' \<Longrightarrow>
   dict_get (add_compression tr d) k = dict_get d k"
  by (simp add: add_compression_def dict_get_dict_set split: option.splits)

lemma wf_add_auth: "wf_dict d \<Longrightarrow> wf_dict (snd (add_auth tr d))"
  by (simp add: add_auth_def wf_dict_set split: option.splits)

lemma dict_get_add_auth:
  "k \<noteq> ''spark.openlineage.transport.auth.type'' \<Longrightarrow>
   k \<noteq> ''spark.openlineage.transport.auth.apiKey'' \<Longrightarrow>
   dict_get (snd (add_auth tr d)) k = dict_get d k"
  by (simp add: add_auth_def dict_get_dict_set split: option.splits)

lemma add_auth_present:
  assumes "has_api_key (auth (config tr))" and "get_bearer (auth (config tr)) = Some bearer"
    and "bearer \<noteq> []"
  shows "add_auth tr d =
     ([External_call ''get_bearer'', External_call ''get_bearer''],
      dict_set (dict_set d ''spark.openlineage.transport.auth.type'' ''api_key'')
        ''spark.openlineage.transport.auth.apiKey'' bearer)"
  using assms by (simp add: add_auth_def)

lemma add_auth_absent:
  assumes "\<not> (has_api_key (auth (config tr)) \<and>
    (\<exists>bearer. get_bearer (auth (config tr)) = Some bearer \<and> bearer \<noteq> []))"
  shows "snd (add_auth tr d) = d"
  using assms by (auto simp: add_auth_def split: option.splits)

lemma wf_add_headers: "wf_dict d \<Longrightarrow> wf_dict (add_headers d hs)"
  by (induction d hs rule: add_headers.induct) (simp_all add: wf_dict_set)

lemma dict_get_add_headers:
  "\<not> prefix ''spark.openlineage.transport.headers.'' k \<Longrightarrow>
   dict_get (add_headers d hs) k = dict_get d k"
  by (induction d hs rule: add_headers.induct) (auto simp: dict_get_dict_set)

lemma wf_add_custom_headers: "wf_dict d \<Longrightarrow> wf_dict (add_custom_headers tr d)"
  by (simp add: add_custom_headers_def wf_add_headers split: option.splits)

lemma dict_get_add_custom_headers:
  "\<not> prefix ''spark.openlineage.transport.headers.'' k \<Longrightarrow>
   dict_get (add_custom_headers tr d) k = dict_get d k"
  by (simp add: add_custom_headers_def dict_get_add_headers split: option.splits)

lemma wf_final_properties: "wf_dict (final_properties tr millis)"
  by (simp add: final_properties_def wf_add_custom_headers wf_add_auth wf_add_compression
      wf_base_properties)

lemma dict_get_final_base:
  assumes "k \<in> set (keys (base_properties tr millis))"
  shows "dict_get (final_properties tr millis) k = dict_get (base_properties tr millis) k"
proof -
  from assms have k:
    "\<not> prefix ''spark.openlineage.transport.headers.'' k"
    "k \<noteq> ''spark.openlineage.transport.auth.type''"
    "k \<noteq> ''spark.openlineage.transport.auth.apiKey''"
    "k \<noteq> ''spark.openlineage.transport.compression''"
    by (auto simp: keys_base_properties)
  then show ?thesis
    by (simp add: final_properties_def dict_get_add_custom_headers dict_get_add_auth
        dict_get_add_compression)
qed

lemma dict_get_final_auth:
  assumes "k = ''spark.openlineage.transport.auth.type'' \<or>
    k = ''spark.openlineage.transport.auth.apiKey''"
  shows "dict_get (final_properties tr millis) k =
    dict_get (snd (add_auth tr (add_compression tr (base_properties tr millis)))) k"
proof -
  from assms have "\<not> prefix ''spark.openlineage.transport.headers.'' k"
    by auto
  then show ?thesis
    by (simp add: final_properties_def dict_get_add_custom_headers)
qed

lemma inject_transport_http:
  assumes "\<not> any_key_startswith ''spark.openlineage.transport'' properties"
    and "kind tr = ''http''"
    and "py_int (float_mul (timeout tr) (Finite 1000 0)) = Inr millis"
  shows "inject_transport_information_into_spark_properties tr properties context =
    (External_call ''get_openlineage_listener'' #
       fst (add_auth tr (add_compression tr (base_properties tr millis))),
     Inr (dict_merge properties (final_properties tr millis)))"
  using assms
  by (simp add: inject_transport_information_into_spark_properties_def final_properties_def
      base_properties_def Let_def split: prod.splits)

section \<open>Shared facts about the two functions\<close>

lemma inject_parent_keys:
  assumes "\<not> any_key_startswith ''spark.openlineage.parent'' properties"
    and "context ''ti'' = Some ti"
  shows "\<exists>d. snd (inject_parent_job_information_into_spark_properties m properties context) = Inr d
    \<and> ''spark.openlineage.parentJobNamespace'' \<in> set (keys d)"
  using assms
  by (simp add: inject_parent_job_information_into_spark_properties_def keys_dict_merge)

lemma inject_transport_guard:
  assumes "any_key_startswith ''spark.openlineage.transport'' properties"
  shows "inject_transport_information_into_spark_properties tr properties context =
    ([Log_info transport_already_present_msg []], Inr properties)"
  using assms by (simp add: inject_transport_information_into_spark_properties_def)

lemma inject_transport_non_http:
  assumes "\<not> any_key_startswith ''spark.openlineage.transport'' properties"
    and "kind tr \<noteq> ''http''"
  shows "inject_transport_information_into_spark_properties tr properties context =
    ([External_call ''get_openlineage_listener'',
      Log_info transport_unsupported_msg [kind tr]], Inr [])"
  using assms by (simp add: inject_transport_information_into_spark_properties_def)

lemma inject_transport_raises:
  assumes "\<not> any_key_startswith ''spark.openlineage.transport'' properties"
    and "kind tr = ''http''"
    and "py_int (float_mul (timeout tr) (Finite 1000 0)) = Inl err"
  shows "inject_transport_information_into_spark_properties tr properties context =
    ([External_call ''get_openlineage_listener''], Inl err)"
  using assms by (simp add: inject_transport_information_into_spark_properties_def)

lemma dict_get_merge_final_base:
  assumes "k \<in> set (keys (base_properties tr millis))"
  shows "dict_get (dict_merge properties (final_properties tr millis)) k =
    dict_get (base_properties tr millis) k"
proof -
  from assms obtain v where v: "dict_get (base_properties tr millis) k = Some v"
    using dict_get_None_iff [of "base_properties tr millis" k] by auto
  with assms have "dict_get (final_properties tr millis) k = Some v"
    by (simp add: dict_get_final_base)
  with v show ?thesis
    by (simp add: dict_get_dict_merge_present wf_final_properties)
qed

lemma final_properties_type_key:
  "''spark.openlineage.transport.type'' \<in> set (keys (final_properties tr millis))"
proof -
  have "dict_get (final_properties tr millis) ''spark.openlineage.transport.type'' =
      dict_get (base_properties tr millis) ''spark.openlineage.transport.type''"
    by (rule dict_get_final_base) (simp add: keys_base_properties)
  also have "\<dots> = Some ''http''"
    by (simp add: base_properties_def dict_get_def)
  finally show ?thesis
    using dict_get_None_iff [of "final_properties tr millis" "''spark.openlineage.transport.type''"]
    by simp
qed

lemma final_properties_no_auth:
  assumes "\<not> (has_api_key (auth (config tr)) \<and>
    (\<exists>bearer. get_bearer (auth (config tr)) = Some bearer \<and> bearer \<noteq> []))"
    and "k = ''spark.openlineage.transport.auth.type'' \<or>
      k = ''spark.openlineage.transport.auth.apiKey''"
  shows "k \<notin> set (keys (final_properties tr millis))"
proof -
  from assms(2) have k: "k \<noteq> ''spark.openlineage.transport.compression''"
    "k \<notin> set (keys (base_properties tr millis))"
    by (auto simp: keys_base_properties)
  have "dict_get (final_properties tr millis) k =
      dict_get (snd (add_auth tr (add_compression tr (base_properties tr millis)))) k"
    using assms(2) by (rule dict_get_final_auth)
  also have "\<dots> = dict_get (add_compression tr (base_properties tr millis)) k"
    using assms(1) by (simp add: add_auth_absent)
  also have "\<dots> = dict_get (base_properties tr millis) k"
    using k(1) by (rule dict_get_add_compression)
  also have "\<dots> = None"
    using k(2) by (simp add: dict_get_None_iff)
  finally show ?thesis
    by (simp add: dict_get_None_iff)
qed

lemma final_properties_auth:
  assumes "has_api_key (auth (config tr))" and "get_bearer (auth (config tr)) = Some bearer"
    and "bearer \<noteq> []"
  shows "dict_get (final_properties tr millis) ''spark.openlineage.transport.auth.type'' =
      Some ''api_key''"
    and "dict_get (final_properties tr millis) ''spark.openlineage.transport.auth.apiKey'' =
      Some bearer"
  using assms
  by (simp_all add: dict_get_final_auth add_auth_present dict_get_dict_set)

section \<open>The claims about the parent job information\<close>

text \<open>
  C2. When no key of the properties starts with \<^verbatim>\<open>spark.openlineage.parent\<close> and the
  context has an entry \<^verbatim>\<open>"ti"\<close>, the function returns the properties followed by
  exactly three new entries: \<^verbatim>\<open>spark.openlineage.parentJobNamespace\<close> with the
  value of the lookup without argument, \<^verbatim>\<open>spark.openlineage.parentJobName\<close> and
  \<^verbatim>\<open>spark.openlineage.parentRunId\<close> with the values of the lookups on the task
  instance. Its only effects are the three lookups. On the empty dictionary the result
  is those three entries (the witness).
\<close>

theorem parent_injects_three_keys:
  assumes "wf_dict properties"
    and "\<not> (\<exists>key \<in> set (keys properties). prefix ''spark.openlineage.parent'' key)"
    and "context ''ti'' = Some ti"
  shows "inject_parent_job_information_into_spark_properties m properties context =
    ([External_call ''lineage_job_namespace'', External_call ''lineage_job_name'',
      External_call ''lineage_run_id''],
     Inr (properties @
       [(''spark.openlineage.parentJobNamespace'', lineage_job_namespace m ()),
        (''spark.openlineage.parentJobName'', lineage_job_name m ti),
        (''spark.openlineage.parentRunId'', lineage_run_id m ti)]))"
proof -
  let ?ol = "[(''spark.openlineage.parentJobNamespace'', lineage_job_namespace m ()),
        (''spark.openlineage.parentJobName'', lineage_job_name m ti),
        (''spark.openlineage.parentRunId'', lineage_run_id m ti)]"
  from assms(2) have
    "''spark.openlineage.parentJobNamespace'' \<notin> set (keys properties)"
    "''spark.openlineage.parentJobName'' \<notin> set (keys properties)"
    "''spark.openlineage.parentRunId'' \<notin> set (keys properties)"
    by auto
  with assms(1) have "distinct (keys properties @ keys ?ol)"
    by (simp add: wf_dict_def keys_def)
  with assms(1) have "dict_merge properties ?ol = properties @ ?ol"
    by (rule dict_merge_append)
  with assms(2,3) show ?thesis
    by (simp add: inject_parent_job_information_into_spark_properties_def
        any_key_startswith_iff)
qed

theorem parent_injects_three_keys_witness:
  "wf_dict [] \<and>
   \<not> (\<exists>key \<in> set (keys []). prefix ''spark.openlineage.parent'' key) \<and>
   example_context ''ti'' = Some ''task-instance'' \<and>
   inject_parent_job_information_into_spark_properties example_macros [] example_context =
   ([External_call ''lineage_job_namespace'', External_call ''lineage_job_name'',
     External_call ''lineage_run_id''],
    Inr [(''spark.openlineage.parentJobNamespace'', ''ns''),
         (''spark.openlineage.parentJobName'', ''job''),
         (''spark.openlineage.parentRunId'', ''run-1'')])"
  using parent_injects_three_keys [of "[]" example_context "''task-instance''" example_macros]
  by (simp add: wf_dict_def example_context_def example_macros_def)

text \<open>
  C4. When some key of the properties starts with \<^verbatim>\<open>spark.openlineage.parent\<close>, the
  function returns the properties as they are, whatever the context, and its only effect
  is one line in the log: no lookup function is called.
\<close>

theorem parent_guard_returns_input:
  assumes "\<exists>key \<in> set (keys properties). prefix ''spark.openlineage.parent'' key"
  shows "inject_parent_job_information_into_spark_properties m properties context =
    ([Log_info parent_already_present_msg []], Inr properties)"
  using assms
  by (simp add: inject_parent_job_information_into_spark_properties_def any_key_startswith_iff)

theorem parent_guard_returns_input_witness:
  "(\<exists>key \<in> set (keys [(''a'', ''b''), (''spark.openlineage.parentRunId'', ''r'')]).
      prefix ''spark.openlineage.parent'' key) \<and>
   inject_parent_job_information_into_spark_properties example_macros
     [(''a'', ''b''), (''spark.openlineage.parentRunId'', ''r'')] Map.empty =
   ([Log_info parent_already_present_msg []],
    Inr [(''a'', ''b''), (''spark.openlineage.parentRunId'', ''r'')])"
  using parent_guard_returns_input
    [of "[(''a'', ''b''), (''spark.openlineage.parentRunId'', ''r'')]" example_macros Map.empty]
  by simp

text \<open>
  C8. When no key of the properties starts with \<^verbatim>\<open>spark.openlineage.parent\<close> and the
  context has no entry \<^verbatim>\<open>"ti"\<close>, the function raises \<^verbatim>\<open>KeyError("ti")\<close>: it
  returns no dictionary, and it has called no lookup function before.
\<close>

theorem parent_missing_ti_raises:
  assumes "\<not> (\<exists>key \<in> set (keys properties). prefix ''spark.openlineage.parent'' key)"
    and "context ''ti'' = None"
  shows "inject_parent_job_information_into_spark_properties m properties context =
    ([], Inl (KeyError ''ti''))"
  using assms
  by (simp add: inject_parent_job_information_into_spark_properties_def any_key_startswith_iff)

theorem parent_missing_ti_raises_witness:
  "\<not> (\<exists>key \<in> set (keys [(''spark.app.name'', ''x'')]).
      prefix ''spark.openlineage.parent'' key) \<and>
   [''run_id'' \<mapsto> ''r''] ''ti'' = None \<and>
   inject_parent_job_information_into_spark_properties example_macros
     [(''spark.app.name'', ''x'')] [''run_id'' \<mapsto> ''r''] =
   ([], Inl (KeyError ''ti''))"
  using parent_missing_ti_raises
    [of "[(''spark.app.name'', ''x'')]" "[''run_id'' \<mapsto> ''r'']" example_macros]
  by simp

section \<open>The claims about the transport information\<close>

text \<open>
  C1. When no key of the properties starts with \<^verbatim>\<open>spark.openlineage.transport\<close> and
  the kind of the transport is not \<^verbatim>\<open>"http"\<close>, the function returns the empty
  dictionary: every entry of the properties is dropped.
\<close>

theorem transport_non_http_returns_empty:
  assumes "\<not> (\<exists>key \<in> set (keys properties). prefix ''spark.openlineage.transport'' key)"
    and "kind tr \<noteq> ''http''"
  shows "inject_transport_information_into_spark_properties tr properties context =
    ([External_call ''get_openlineage_listener'',
      Log_info transport_unsupported_msg [kind tr]], Inr [])"
  using assms by (simp add: inject_transport_non_http any_key_startswith_iff)

theorem transport_non_http_returns_empty_witness:
  "\<not> (\<exists>key \<in> set (keys [(''a'', ''b'')]). prefix ''spark.openlineage.transport'' key) \<and>
   kind kafka_transport \<noteq> ''http'' \<and>
   inject_transport_information_into_spark_properties kafka_transport [(''a'', ''b'')] () =
   ([External_call ''get_openlineage_listener'',
     Log_info transport_unsupported_msg [''kafka'']], Inr [])"
  using transport_non_http_returns_empty [of "[(''a'', ''b'')]" kafka_transport "()"]
  by (simp add: kafka_transport_def http_transport_def)

text \<open>
  C5. When some key of the properties starts with \<^verbatim>\<open>spark.openlineage.transport\<close>,
  the function returns the properties as they are, whatever the context and the
  transport, and its only effect is one line in the log: the listener is not asked for
  the transport.
\<close>

theorem transport_guard_returns_input:
  assumes "\<exists>key \<in> set (keys properties). prefix ''spark.openlineage.transport'' key"
  shows "inject_transport_information_into_spark_properties tr properties context =
    ([Log_info transport_already_present_msg []], Inr properties)"
  using assms by (simp add: inject_transport_guard any_key_startswith_iff)

theorem transport_guard_returns_input_witness:
  "(\<exists>key \<in> set (keys [(''spark.openlineage.transport.type'', ''console'')]).
      prefix ''spark.openlineage.transport'' key) \<and>
   inject_transport_information_into_spark_properties http_transport
     [(''spark.openlineage.transport.type'', ''console'')] () =
   ([Log_info transport_already_present_msg []],
    Inr [(''spark.openlineage.transport.type'', ''console'')])"
  using transport_guard_returns_input
    [of "[(''spark.openlineage.transport.type'', ''console'')]" http_transport "()"]
  by simp

text \<open>
  C9. The result and the effects of the function do not depend on the context: two calls
  with the same properties and the same transport, and any two contexts, are equal.
\<close>

theorem transport_ignores_context:
  "inject_transport_information_into_spark_properties tr properties context1 =
   inject_transport_information_into_spark_properties tr properties context2"
  by (simp add: inject_transport_information_into_spark_properties_def)

text \<open>
  C3. For a transport of kind \<^verbatim>\<open>"http"\<close> whose timeout is not negative and whose
  product \<^verbatim>\<open>timeout * 1000\<close>, computed on floats, is finite, and for properties with
  no key that starts with \<^verbatim>\<open>spark.openlineage.transport\<close>, the function returns a
  dictionary that holds \<^verbatim>\<open>spark.openlineage.transport.type\<close> with \<^verbatim>\<open>"http"\<close>,
  \<^verbatim>\<open>spark.openlineage.transport.url\<close> and
  \<^verbatim>\<open>spark.openlineage.transport.endpoint\<close> with the url and the endpoint of the
  transport, and \<^verbatim>\<open>spark.openlineage.transport.timeoutInMillis\<close> with the decimal
  digits of the floor of that product; the timeout \<^verbatim>\<open>5.0\<close> gives
  \<^verbatim>\<open>"5000"\<close> (the witness). When the product is infinite the function raises
  \<^verbatim>\<open>OverflowError\<close> instead.
\<close>

theorem transport_base_keys:
  assumes "\<not> (\<exists>key \<in> set (keys properties). prefix ''spark.openlineage.transport'' key)"
    and "kind tr = ''http''"
    and "float_nonneg (timeout tr)"
    and "is_finite (float_mul (timeout tr) (Finite 1000 0))"
  shows "\<exists>d. snd (inject_transport_information_into_spark_properties tr properties context) =
        Inr d
    \<and> dict_get d ''spark.openlineage.transport.type'' = Some ''http''
    \<and> dict_get d ''spark.openlineage.transport.url'' = Some (url tr)
    \<and> dict_get d ''spark.openlineage.transport.endpoint'' = Some (endpoint tr)
    \<and> dict_get d ''spark.openlineage.transport.timeoutInMillis'' =
        Some (str_int \<lfloor>float_value (float_mul (timeout tr) (Finite 1000 0))\<rfloor>)"
proof -
  from assms(4) obtain n f where product: "float_mul (timeout tr) (Finite 1000 0) = Finite n f"
    by (cases "float_mul (timeout tr) (Finite 1000 0)") simp_all
  with assms(3) have "0 \<le> n"
    by (rule float_mul_nonneg)
  then have millis: "py_int (float_mul (timeout tr) (Finite 1000 0)) =
      Inr \<lfloor>float_value (float_mul (timeout tr) (Finite 1000 0))\<rfloor>"
    unfolding product by (rule py_int_floor)
  let ?millis = "\<lfloor>float_value (float_mul (timeout tr) (Finite 1000 0))\<rfloor>"
  let ?d = "dict_merge properties (final_properties tr ?millis)"
  from assms(1) have "\<not> any_key_startswith ''spark.openlineage.transport'' properties"
    by (simp add: any_key_startswith_iff)
  then have "snd (inject_transport_information_into_spark_properties tr properties context) =
      Inr ?d"
    using assms(2) millis by (simp add: inject_transport_http)
  moreover have "dict_get ?d ''spark.openlineage.transport.type'' = Some ''http''"
    by (simp add: dict_get_merge_final_base keys_base_properties)
      (simp add: base_properties_def dict_get_def)
  moreover have "dict_get ?d ''spark.openlineage.transport.url'' = Some (url tr)"
    by (simp add: dict_get_merge_final_base keys_base_properties)
      (simp add: base_properties_def dict_get_def)
  moreover have "dict_get ?d ''spark.openlineage.transport.endpoint'' = Some (endpoint tr)"
    by (simp add: dict_get_merge_final_base keys_base_properties)
      (simp add: base_properties_def dict_get_def)
  moreover have "dict_get ?d ''spark.openlineage.transport.timeoutInMillis'' =
      Some (str_int ?millis)"
    by (simp add: dict_get_merge_final_base keys_base_properties)
      (simp add: base_properties_def dict_get_def)
  ultimately show ?thesis
    by blast
qed

theorem transport_base_keys_witness:
  "\<not> (\<exists>key \<in> set (keys []). prefix ''spark.openlineage.transport'' key) \<and>
   kind http_transport = ''http'' \<and>
   float_nonneg (timeout http_transport) \<and>
   is_finite (float_mul (timeout http_transport) (Finite 1000 0)) \<and>
   (\<exists>d. snd (inject_transport_information_into_spark_properties http_transport [] ()) = Inr d
    \<and> dict_get d ''spark.openlineage.transport.type'' = Some ''http''
    \<and> dict_get d ''spark.openlineage.transport.url'' = Some ''http://localhost:5000''
    \<and> dict_get d ''spark.openlineage.transport.endpoint'' = Some ''api/v1/lineage''
    \<and> dict_get d ''spark.openlineage.transport.timeoutInMillis'' = Some ''5000'')"
proof -
  have product: "float_mul (timeout http_transport) (Finite 1000 0) = Finite 5000 0"
    by code_simp
  have digits: "str_int 5000 = ''5000''"
    by code_simp
  have h1: "\<not> (\<exists>key \<in> set (keys []). prefix ''spark.openlineage.transport'' key)"
    by simp
  have h2: "kind http_transport = ''http''"
    by (simp add: http_transport_def)
  have h3: "float_nonneg (timeout http_transport)"
    by (simp add: http_transport_def)
  have h4: "is_finite (float_mul (timeout http_transport) (Finite 1000 0))"
    by (simp add: product)
  have fields: "url http_transport = ''http://localhost:5000''"
    "endpoint http_transport = ''api/v1/lineage''"
    by (simp_all add: http_transport_def)
  from transport_base_keys [OF h1 h2 h3 h4, of "()"] h1 h2 h3 h4 show ?thesis
    by (simp add: product digits fields)
qed

text \<open>
  The claim as it was stated, for every timeout that is not negative, fails: with the
  timeout \<^verbatim>\<open>float("inf")\<close>, and with the finite timeout \<open>2 ^ 1020\<close>, the product
  is infinite and \<^verbatim>\<open>int\<close> raises \<^verbatim>\<open>OverflowError\<close>, so no dictionary is built.
\<close>

theorem transport_base_keys_counterexample:
  "kind inf_timeout_transport = ''http'' \<and>
   float_nonneg (timeout inf_timeout_transport) \<and>
   inject_transport_information_into_spark_properties inf_timeout_transport [] () =
     ([External_call ''get_openlineage_listener''], Inl OverflowError) \<and>
   kind huge_timeout_transport = ''http'' \<and>
   float_nonneg (timeout huge_timeout_transport) \<and>
   inject_transport_information_into_spark_properties huge_timeout_transport [] () =
     ([External_call ''get_openlineage_listener''], Inl OverflowError)"
  by code_simp

text \<open>
  C7. On the path that builds the transport properties (no key of the properties starts
  with \<^verbatim>\<open>spark.openlineage.transport\<close>, the kind is \<^verbatim>\<open>"http"\<close> and \<^verbatim>\<open>int\<close>
  has returned the milliseconds), a token provider that has the attribute
  \<^verbatim>\<open>api_key\<close> and gives a token that is not empty adds
  \<^verbatim>\<open>spark.openlineage.transport.auth.type\<close> with \<^verbatim>\<open>"api_key"\<close> and
  \<^verbatim>\<open>spark.openlineage.transport.auth.apiKey\<close> with the token to the result, next to
  the four base entries.
\<close>

theorem transport_api_key_injected:
  assumes "\<not> (\<exists>key \<in> set (keys properties). prefix ''spark.openlineage.transport'' key)"
    and "kind tr = ''http''"
    and "py_int (float_mul (timeout tr) (Finite 1000 0)) = Inr millis"
    and "has_api_key (auth (config tr))"
    and "get_bearer (auth (config tr)) = Some bearer"
    and "bearer \<noteq> []"
  shows "\<exists>d. snd (inject_transport_information_into_spark_properties tr properties context) =
        Inr d
    \<and> dict_get d ''spark.openlineage.transport.auth.type'' = Some ''api_key''
    \<and> dict_get d ''spark.openlineage.transport.auth.apiKey'' = Some bearer
    \<and> dict_get d ''spark.openlineage.transport.type'' = Some ''http''
    \<and> dict_get d ''spark.openlineage.transport.url'' = Some (url tr)
    \<and> dict_get d ''spark.openlineage.transport.endpoint'' = Some (endpoint tr)
    \<and> dict_get d ''spark.openlineage.transport.timeoutInMillis'' = Some (str_int millis)"
proof -
  let ?d = "dict_merge properties (final_properties tr millis)"
  from assms(1) have "\<not> any_key_startswith ''spark.openlineage.transport'' properties"
    by (simp add: any_key_startswith_iff)
  then have "snd (inject_transport_information_into_spark_properties tr properties context) =
      Inr ?d"
    using assms(2,3) by (simp add: inject_transport_http)
  moreover have "dict_get ?d ''spark.openlineage.transport.auth.type'' = Some ''api_key''"
    using assms(4-6)
    by (simp add: dict_get_dict_merge_present wf_final_properties final_properties_auth)
  moreover have "dict_get ?d ''spark.openlineage.transport.auth.apiKey'' = Some bearer"
    using assms(4-6)
    by (simp add: dict_get_dict_merge_present wf_final_properties final_properties_auth)
  moreover have "dict_get ?d ''spark.openlineage.transport.type'' = Some ''http''"
    by (simp add: dict_get_merge_final_base keys_base_properties)
      (simp add: base_properties_def dict_get_def)
  moreover have "dict_get ?d ''spark.openlineage.transport.url'' = Some (url tr)"
    by (simp add: dict_get_merge_final_base keys_base_properties)
      (simp add: base_properties_def dict_get_def)
  moreover have "dict_get ?d ''spark.openlineage.transport.endpoint'' = Some (endpoint tr)"
    by (simp add: dict_get_merge_final_base keys_base_properties)
      (simp add: base_properties_def dict_get_def)
  moreover have "dict_get ?d ''spark.openlineage.transport.timeoutInMillis'' =
      Some (str_int millis)"
    by (simp add: dict_get_merge_final_base keys_base_properties)
      (simp add: base_properties_def dict_get_def)
  ultimately show ?thesis
    by blast
qed

theorem transport_api_key_injected_witness:
  "\<not> (\<exists>key \<in> set (keys [(''a'', ''b'')]). prefix ''spark.openlineage.transport'' key) \<and>
   kind api_key_transport = ''http'' \<and>
   py_int (float_mul (timeout api_key_transport) (Finite 1000 0)) = Inr 5000 \<and>
   has_api_key (auth (config api_key_transport)) \<and>
   get_bearer (auth (config api_key_transport)) = Some ''Bearer secret'' \<and>
   ''Bearer secret'' \<noteq> [] \<and>
   (\<exists>d. snd (inject_transport_information_into_spark_properties api_key_transport
        [(''a'', ''b'')] ()) = Inr d
    \<and> dict_get d ''spark.openlineage.transport.auth.type'' = Some ''api_key''
    \<and> dict_get d ''spark.openlineage.transport.auth.apiKey'' = Some ''Bearer secret''
    \<and> dict_get d ''spark.openlineage.transport.type'' = Some ''http''
    \<and> dict_get d ''spark.openlineage.transport.url'' = Some ''http://localhost:5000''
    \<and> dict_get d ''spark.openlineage.transport.endpoint'' = Some ''api/v1/lineage''
    \<and> dict_get d ''spark.openlineage.transport.timeoutInMillis'' = Some ''5000'')"
proof -
  have h1: "\<not> (\<exists>key \<in> set (keys [(''a'', ''b'')]).
      prefix ''spark.openlineage.transport'' key)"
    by simp
  have h2: "kind api_key_transport = ''http''"
    by (simp add: api_key_transport_def http_transport_def)
  have h3: "py_int (float_mul (timeout api_key_transport) (Finite 1000 0)) = Inr 5000"
    by code_simp
  have h4: "has_api_key (auth (config api_key_transport))"
    by (simp add: api_key_transport_def)
  have h5: "get_bearer (auth (config api_key_transport)) = Some ''Bearer secret''"
    by (simp add: api_key_transport_def)
  have h6: "''Bearer secret'' \<noteq> []"
    by simp
  have digits: "str_int 5000 = ''5000''"
    by code_simp
  have fields: "url api_key_transport = ''http://localhost:5000''"
    "endpoint api_key_transport = ''api/v1/lineage''"
    by (simp_all add: api_key_transport_def http_transport_def)
  from transport_api_key_injected [OF h1 h2 h3 h4 h5 h6, of "()"] h1 h2 h3 h4 h5 h6
  show ?thesis
    by (simp add: digits fields)
qed

text \<open>
  C10. Without a token the result has no authentication entry: when the properties hold
  neither \<^verbatim>\<open>spark.openlineage.transport.auth.type\<close> nor
  \<^verbatim>\<open>spark.openlineage.transport.auth.apiKey\<close>, and the token provider lacks the
  attribute \<^verbatim>\<open>api_key\<close> or its token is \<^verbatim>\<open>None\<close> or empty, no dictionary that
  the function returns holds either key.
\<close>

theorem transport_auth_keys_need_token:
  assumes "''spark.openlineage.transport.auth.type'' \<notin> set (keys properties)"
    and "''spark.openlineage.transport.auth.apiKey'' \<notin> set (keys properties)"
    and "\<not> (has_api_key (auth (config tr)) \<and>
      (\<exists>bearer. get_bearer (auth (config tr)) = Some bearer \<and> bearer \<noteq> []))"
    and "snd (inject_transport_information_into_spark_properties tr properties context) = Inr d"
  shows "''spark.openlineage.transport.auth.type'' \<notin> set (keys d) \<and>
    ''spark.openlineage.transport.auth.apiKey'' \<notin> set (keys d)"
proof (cases "any_key_startswith ''spark.openlineage.transport'' properties")
  case True
  with assms(4) have "d = properties"
    by (simp add: inject_transport_guard)
  with assms(1,2) show ?thesis by simp
next
  case guard: False
  show ?thesis
  proof (cases "kind tr = ''http''")
    case False
    with guard assms(4) have "d = []"
      by (simp add: inject_transport_non_http)
    then show ?thesis by simp
  next
    case True
    show ?thesis
    proof (cases "py_int (float_mul (timeout tr) (Finite 1000 0))")
      case (Inl err)
      with guard True assms(4) show ?thesis
        by (simp add: inject_transport_raises)
    next
      case (Inr millis)
      with guard True assms(4) have "d = dict_merge properties (final_properties tr millis)"
        by (simp add: inject_transport_http)
      then have "set (keys d) = set (keys properties) \<union> set (keys (final_properties tr millis))"
        by (simp add: keys_dict_merge)
      with assms(1,2) final_properties_no_auth [OF assms(3)] show ?thesis
        by simp
    qed
  qed
qed

theorem transport_auth_keys_need_token_witness:
  "''spark.openlineage.transport.auth.type'' \<notin> set (keys [(''a'', ''b'')]) \<and>
   ''spark.openlineage.transport.auth.apiKey'' \<notin> set (keys [(''a'', ''b'')]) \<and>
   \<not> (has_api_key (auth (config empty_token_transport)) \<and>
      (\<exists>bearer. get_bearer (auth (config empty_token_transport)) = Some bearer \<and>
         bearer \<noteq> [])) \<and>
   snd (inject_transport_information_into_spark_properties empty_token_transport
      [(''a'', ''b'')] ()) =
     Inr [(''a'', ''b''), (''spark.openlineage.transport.type'', ''http''),
       (''spark.openlineage.transport.url'', ''http://localhost:5000''),
       (''spark.openlineage.transport.endpoint'', ''api/v1/lineage''),
       (''spark.openlineage.transport.timeoutInMillis'', ''5000'')] \<and>
   ''spark.openlineage.transport.auth.type'' \<notin>
     set (keys [(''a'', ''b''), (''spark.openlineage.transport.type'', ''http''),
       (''spark.openlineage.transport.url'', ''http://localhost:5000''),
       (''spark.openlineage.transport.endpoint'', ''api/v1/lineage''),
       (''spark.openlineage.transport.timeoutInMillis'', ''5000'')]) \<and>
   ''spark.openlineage.transport.auth.apiKey'' \<notin>
     set (keys [(''a'', ''b''), (''spark.openlineage.transport.type'', ''http''),
       (''spark.openlineage.transport.url'', ''http://localhost:5000''),
       (''spark.openlineage.transport.endpoint'', ''api/v1/lineage''),
       (''spark.openlineage.transport.timeoutInMillis'', ''5000'')])"
proof -
  let ?d = "[(''a'', ''b''), (''spark.openlineage.transport.type'', ''http''),
       (''spark.openlineage.transport.url'', ''http://localhost:5000''),
       (''spark.openlineage.transport.endpoint'', ''api/v1/lineage''),
       (''spark.openlineage.transport.timeoutInMillis'', ''5000'')]"
  have h1: "''spark.openlineage.transport.auth.type'' \<notin> set (keys [(''a'', ''b'')])"
    by simp
  have h2: "''spark.openlineage.transport.auth.apiKey'' \<notin> set (keys [(''a'', ''b'')])"
    by simp
  have h3: "\<not> (has_api_key (auth (config empty_token_transport)) \<and>
      (\<exists>bearer. get_bearer (auth (config empty_token_transport)) = Some bearer \<and>
         bearer \<noteq> []))"
    by (simp add: empty_token_transport_def)
  have h4: "snd (inject_transport_information_into_spark_properties empty_token_transport
      [(''a'', ''b'')] ()) = Inr ?d"
    by code_simp
  from transport_auth_keys_need_token [OF h1 h2 h3 h4] h1 h2 h3 h4 show ?thesis
    by blast
qed

section \<open>The claim about calling a function on its own result\<close>

text \<open>
  C6. Called on the dictionary that a first call has returned, each function returns that
  dictionary again. For the parent job information, with a context that has an entry
  \<^verbatim>\<open>"ti"\<close>, the second call stops at the test of the keys: it logs one line and
  calls no lookup function. For the transport information the second call stops at the
  test of the keys whenever the first result is not empty. The first result is empty only
  when the kind of the transport is not \<^verbatim>\<open>"http"\<close>; the second call then finds no
  key, asks the listener for the transport once more and returns the empty dictionary
  again.
\<close>

theorem second_injection_returns_first_result:
  "(context ''ti'' = Some ti \<longrightarrow>
      (\<exists>d. snd (inject_parent_job_information_into_spark_properties m properties context) =
          Inr d \<and>
        inject_parent_job_information_into_spark_properties m d context' =
          ([Log_info parent_already_present_msg []], Inr d))) \<and>
   (snd (inject_transport_information_into_spark_properties tr properties' c) = Inr d' \<longrightarrow>
      snd (inject_transport_information_into_spark_properties tr d' c') = Inr d' \<and>
      (d' \<noteq> [] \<longrightarrow>
         inject_transport_information_into_spark_properties tr d' c' =
           ([Log_info transport_already_present_msg []], Inr d')) \<and>
      (d' = [] \<longrightarrow>
         kind tr \<noteq> ''http'' \<and>
         inject_transport_information_into_spark_properties tr d' c' =
           ([External_call ''get_openlineage_listener'',
             Log_info transport_unsupported_msg [kind tr]], Inr [])))"
proof (intro conjI impI)
  assume ti: "context ''ti'' = Some ti"
  show "\<exists>d. snd (inject_parent_job_information_into_spark_properties m properties context) =
          Inr d \<and>
        inject_parent_job_information_into_spark_properties m d context' =
          ([Log_info parent_already_present_msg []], Inr d)"
  proof (cases "any_key_startswith ''spark.openlineage.parent'' properties")
    case True
    then show ?thesis
      by (simp add: inject_parent_job_information_into_spark_properties_def)
  next
    case False
    with ti obtain d where
      d: "snd (inject_parent_job_information_into_spark_properties m properties context) = Inr d"
      and key: "''spark.openlineage.parentJobNamespace'' \<in> set (keys d)"
      using inject_parent_keys [of properties "context" ti m] by blast
    from key have "any_key_startswith ''spark.openlineage.parent'' d"
      unfolding any_key_startswith_iff by (rule bexI [rotated]) simp
    then have "inject_parent_job_information_into_spark_properties m d context' =
        ([Log_info parent_already_present_msg []], Inr d)"
      by (simp add: inject_parent_job_information_into_spark_properties_def)
    with d show ?thesis by blast
  qed
next
  assume first: "snd (inject_transport_information_into_spark_properties tr properties' c) = Inr d'"
  consider (guard) "any_key_startswith ''spark.openlineage.transport'' properties'"
    | (other) "\<not> any_key_startswith ''spark.openlineage.transport'' properties'"
        "kind tr \<noteq> ''http''"
    | (http) "\<not> any_key_startswith ''spark.openlineage.transport'' properties'"
        "kind tr = ''http''"
    by blast
  then have shape: "(d' \<noteq> [] \<and> any_key_startswith ''spark.openlineage.transport'' d') \<or>
      (d' = [] \<and> kind tr \<noteq> ''http'')"
  proof cases
    case guard
    with first have "d' = properties'"
      by (simp add: inject_transport_guard)
    with guard show ?thesis
      by (auto simp: any_key_startswith_iff)
  next
    case other
    with first show ?thesis
      by (simp add: inject_transport_non_http)
  next
    case http
    show ?thesis
    proof (cases "py_int (float_mul (timeout tr) (Finite 1000 0))")
      case (Inl err)
      with http first show ?thesis
        by (simp add: inject_transport_raises)
    next
      case (Inr millis)
      with http first have d': "d' = dict_merge properties' (final_properties tr millis)"
        by (simp add: inject_transport_http)
      then have key: "''spark.openlineage.transport.type'' \<in> set (keys d')"
        by (simp add: keys_dict_merge final_properties_type_key)
      then have "any_key_startswith ''spark.openlineage.transport'' d'"
        unfolding any_key_startswith_iff by (rule bexI [rotated]) simp
      with key show ?thesis by auto
    qed
  qed
  have empty: "\<not> any_key_startswith ''spark.openlineage.transport'' []"
    by (simp add: any_key_startswith_iff)
  from shape show "snd (inject_transport_information_into_spark_properties tr d' c') = Inr d'"
    using empty by (auto simp: inject_transport_guard inject_transport_non_http)
  from shape show "inject_transport_information_into_spark_properties tr d' c' =
      ([Log_info transport_already_present_msg []], Inr d')" if "d' \<noteq> []"
    using that by (auto simp: inject_transport_guard)
  from shape show "kind tr \<noteq> ''http''" if "d' = []"
    using that by auto
  from shape show "inject_transport_information_into_spark_properties tr d' c' =
      ([External_call ''get_openlineage_listener'',
        Log_info transport_unsupported_msg [kind tr]], Inr [])" if "d' = []"
    using that empty by (auto simp: inject_transport_non_http)
qed

theorem second_injection_returns_first_result_witness:
  "example_context ''ti'' = Some ''task-instance'' \<and>
   snd (inject_parent_job_information_into_spark_properties example_macros [(''a'', ''b'')]
      example_context) =
     Inr [(''a'', ''b''), (''spark.openlineage.parentJobNamespace'', ''ns''),
       (''spark.openlineage.parentJobName'', ''job''),
       (''spark.openlineage.parentRunId'', ''run-1'')] \<and>
   inject_parent_job_information_into_spark_properties example_macros
     [(''a'', ''b''), (''spark.openlineage.parentJobNamespace'', ''ns''),
       (''spark.openlineage.parentJobName'', ''job''),
       (''spark.openlineage.parentRunId'', ''run-1'')] example_context =
     ([Log_info parent_already_present_msg []],
      Inr [(''a'', ''b''), (''spark.openlineage.parentJobNamespace'', ''ns''),
       (''spark.openlineage.parentJobName'', ''job''),
       (''spark.openlineage.parentRunId'', ''run-1'')]) \<and>
   snd (inject_transport_information_into_spark_properties http_transport [] ()) =
     Inr [(''spark.openlineage.transport.type'', ''http''),
       (''spark.openlineage.transport.url'', ''http://localhost:5000''),
       (''spark.openlineage.transport.endpoint'', ''api/v1/lineage''),
       (''spark.openlineage.transport.timeoutInMillis'', ''5000'')] \<and>
   inject_transport_information_into_spark_properties http_transport
     [(''spark.openlineage.transport.type'', ''http''),
       (''spark.openlineage.transport.url'', ''http://localhost:5000''),
       (''spark.openlineage.transport.endpoint'', ''api/v1/lineage''),
       (''spark.openlineage.transport.timeoutInMillis'', ''5000'')] () =
     ([Log_info transport_already_present_msg []],
      Inr [(''spark.openlineage.transport.type'', ''http''),
       (''spark.openlineage.transport.url'', ''http://localhost:5000''),
       (''spark.openlineage.transport.endpoint'', ''api/v1/lineage''),
       (''spark.openlineage.transport.timeoutInMillis'', ''5000'')])"
proof -
  let ?d = "[(''a'', ''b''), (''spark.openlineage.parentJobNamespace'', ''ns''),
       (''spark.openlineage.parentJobName'', ''job''),
       (''spark.openlineage.parentRunId'', ''run-1'')]"
  let ?d' = "[(''spark.openlineage.transport.type'', ''http''),
       (''spark.openlineage.transport.url'', ''http://localhost:5000''),
       (''spark.openlineage.transport.endpoint'', ''api/v1/lineage''),
       (''spark.openlineage.transport.timeoutInMillis'', ''5000'')]"
  have ti: "example_context ''ti'' = Some ''task-instance''"
    by (simp add: example_context_def)
  have parent: "snd (inject_parent_job_information_into_spark_properties example_macros
      [(''a'', ''b'')] example_context) = Inr ?d"
    by code_simp
  have transport: "snd (inject_transport_information_into_spark_properties http_transport
      [] ()) = Inr ?d'"
    by code_simp
  have filled: "?d' \<noteq> []"
    by simp
  from second_injection_returns_first_result
    [of example_context "''task-instance''" example_macros "[(''a'', ''b'')]" example_context
      http_transport "[]" "()" ?d' "()"]
    ti parent transport filled
  show ?thesis
    by simp
qed

text \<open>
  The claim as it was stated has the second call stopped by the test of the keys in every
  case, the transport of another kind than \<^verbatim>\<open>"http"\<close> included. There the first
  call returns the empty dictionary, which has no key for the test to find, and the second
  call is not the one line in the log: it asks the listener for the transport once more.
\<close>

theorem second_injection_counterexample:
  "snd (inject_transport_information_into_spark_properties kafka_transport [(''a'', ''b'')] ()) =
     Inr [] \<and>
   \<not> any_key_startswith ''spark.openlineage.transport'' [] \<and>
   inject_transport_information_into_spark_properties kafka_transport [] () \<noteq>
     ([Log_info transport_already_present_msg []], Inr []) \<and>
   fst (inject_transport_information_into_spark_properties kafka_transport [] ()) =
     [External_call ''get_openlineage_listener'',
      Log_info transport_unsupported_msg [''kafka'']]"
  by (simp add: inject_transport_information_into_spark_properties_def any_key_startswith_def
      startswith_def keys_def kafka_transport_def http_transport_def)

end
